theory Spec2Isabelle
  imports Main
begin

section \<open>Vaultix wallet authentication: data model\<close>

text \<open>
  The backend authenticates a Stellar wallet by challenge and response
  (\<^verbatim>\<open>auth.service.ts\<close>) over two tables reached through \<^verbatim>\<open>user.service.ts\<close>.
  A request handler is modelled as a function from the store, the inputs of the request and
  the ambient readings it makes (clock, random bytes, generated row id) to its outcome and the
  store it leaves behind. A thrown exception is an \<open>Inl\<close> outcome; the writes made before the
  throw stay in the returned store, as they do in the database.
\<close>

datatype error =
    UnauthorizedException string
  | Error string
  | TypeError
  | UpdateValuesMissingError

text \<open>
  Modelled from the spec: the \<^verbatim>\<open>User\<close> entity (\<^verbatim>\<open>user.entity.ts\<close>): identifier, wallet
  address, current pending nonce (optional), active flag (set on creation), creation
  timestamp.
\<close>

record user =
  u_id :: string
  u_walletAddress :: string
  u_nonce :: "string option"
  u_isActive :: bool
  u_createdAt :: int

text \<open>\<^verbatim>\<open>refresh-token.entity.ts\<close>; timestamps are milliseconds since the epoch.\<close>

record refresh_token =
  rt_id :: string
  rt_token :: string
  rt_userId :: string
  rt_expiresAt :: int
  rt_isActive :: bool
  rt_createdAt :: int

record store =
  users :: "user list"
  refreshTokens :: "refresh_token list"

text \<open>
  What one request reads from its surroundings: the clock (\<^verbatim>\<open>new Date()\<close>, read once per
  request), the offset of the server's local time from UTC (the \<^verbatim>\<open>LocalTZA(t, isUTC)\<close> of the
  language standard, in milliseconds), the bytes \<^verbatim>\<open>crypto.randomBytes\<close> delivers (every
  handler draws at most once) and the identifier the database generates for a row inserted by
  the request.
\<close>

record ambient =
  now :: int
  localTZA :: "int \<Rightarrow> bool \<Rightarrow> int"
  rnd :: "nat \<Rightarrow> nat"
  newId :: string

text \<open>
  \<^verbatim>\<open>d.setDate(d.getDate() + 7)\<close> on a date holding the instant \<open>t\<close>: the instant is taken to
  local time, moved on by seven calendar days at the same time of day, and taken back to UTC
  with the offset in force there. Across a daylight-saving change the result is not
  \<open>t + 7 * 86400000\<close>.
\<close>

definition setDatePlus7 :: "ambient \<Rightarrow> int \<Rightarrow> int" where
  "setDatePlus7 a t =
     (let local = t + localTZA a t True;
          moved = local + 7 * 86400000
      in moved - localTZA a moved False)"

definition randomBytes :: "ambient \<Rightarrow> nat \<Rightarrow> nat list" where
  "randomBytes a n = map (\<lambda>i. rnd a i mod 256) [0..<n]"

definition hexDigit :: "nat \<Rightarrow> char" where
  "hexDigit d = ''0123456789abcdef'' ! d"

text \<open>\<^verbatim>\<open>Buffer.toString('hex')\<close>: two lower-case digits per byte.\<close>

definition toHex :: "nat list \<Rightarrow> string" where
  "toHex bs = concat (map (\<lambda>b. [hexDigit (b div 16), hexDigit (b mod 16)]) bs)"

definition hexVal :: "char \<Rightarrow> nat option" where
  "hexVal c = map_of (zip ''0123456789abcdefABCDEF''
       [0, 1, 2, 3, 4, 5, 6, 7, 8, 9, 10, 11, 12, 13, 14, 15, 10, 11, 12, 13, 14, 15]) c"

text \<open>
  \<^verbatim>\<open>Buffer.from(s, 'hex')\<close>: decodes pairs of hex digits and stops, without an error, at the
  first pair that is not hex or at a trailing single character.
\<close>

fun fromHex :: "string \<Rightarrow> nat list" where
  "fromHex (a # b # cs) =
     (case hexVal a of
        None \<Rightarrow> []
      | Some x \<Rightarrow> (case hexVal b of None \<Rightarrow> [] | Some y \<Rightarrow> (16 * x + y) # fromHex cs))"
| "fromHex _ = []"

section \<open>UserService\<close>

text \<open>
  The two repositories are tables, kept as row lists in insertion order. \<^verbatim>\<open>findOne\<close> gives
  the first row that meets the \<^verbatim>\<open>where\<close> condition; \<^verbatim>\<open>update\<close> sets, in every row that
  meets its criteria, the columns whose keys hold a defined value; \<^verbatim>\<open>save\<close> of a created
  entity appends a row.
\<close>

definition findByWalletAddress :: "store \<Rightarrow> string \<Rightarrow> user option" where
  "findByWalletAddress s walletAddress =
     find (\<lambda>u. u_walletAddress u = walletAddress) (users s)"

definition findById :: "store \<Rightarrow> string \<Rightarrow> user option" where
  "findById s i = find (\<lambda>u. u_id u = i \<and> u_isActive u) (users s)"

text \<open>
  \<^verbatim>\<open>Partial<User>\<close> as the service's callers build it: each key is absent (\<open>None\<close>) or
  present with a value; the nonce key can be present with the value \<^verbatim>\<open>undefined\<close>
  (\<open>Some None\<close>), which is what \<^verbatim>\<open>verifySignature\<close> passes to clear the nonce. The
  repository skips a key that holds \<^verbatim>\<open>undefined\<close>: such a key sets no column.
\<close>

record user_data =
  d_walletAddress :: "string option"
  d_nonce :: "string option option"

definition applyUserData :: "user_data \<Rightarrow> user \<Rightarrow> user" where
  "applyUserData d u =
     u\<lparr>u_walletAddress := (case d_walletAddress d of None \<Rightarrow> u_walletAddress u | Some w \<Rightarrow> w),
       u_nonce := (case d_nonce d of
                     None \<Rightarrow> u_nonce u
                   | Some None \<Rightarrow> u_nonce u
                   | Some (Some n) \<Rightarrow> Some n)\<rparr>"

text \<open>Some key of the partial entity holds a defined value, so there is a column to set.\<close>

definition hasValues :: "user_data \<Rightarrow> bool" where
  "hasValues d =
     (d_walletAddress d \<noteq> None \<or>
      (case d_nonce d of None \<Rightarrow> False | Some None \<Rightarrow> False | Some (Some n) \<Rightarrow> True))"

definition create :: "store \<Rightarrow> ambient \<Rightarrow> user_data \<Rightarrow> user \<times> store" where
  "create s a userData =
     (let u = applyUserData userData
                \<lparr>u_id = newId a, u_walletAddress = [], u_nonce = None,
                 u_isActive = True, u_createdAt = now a\<rparr>
      in (u, s\<lparr>users := users s @ [u]\<rparr>))"

text \<open>
  \<^verbatim>\<open>UserService.update\<close>: the repository's \<^verbatim>\<open>update\<close>, then the read-back through
  \<^verbatim>\<open>findById\<close>. The repository's \<^verbatim>\<open>update\<close> throws \<^verbatim>\<open>UpdateValuesMissingError\<close>, before
  it touches the table, when the partial entity leaves it no column to set; the user entity
  has no column that is set on its own at every update.
\<close>

definition update :: "store \<Rightarrow> string \<Rightarrow> user_data \<Rightarrow> (error + user) \<times> store" where
  "update s i userData =
     (if \<not> hasValues userData then (Inl UpdateValuesMissingError, s)
      else
        (let s' = s\<lparr>users := map (\<lambda>u. if u_id u = i then applyUserData userData u else u) (users s)\<rparr>
         in case findById s' i of
              None \<Rightarrow> (Inl (Error ''User not found''), s')
            | Some u \<Rightarrow> (Inr u, s')))"

definition createRefreshToken ::
  "store \<Rightarrow> ambient \<Rightarrow> string \<Rightarrow> string \<Rightarrow> int \<Rightarrow> refresh_token \<times> store" where
  "createRefreshToken s a token userId expiresAt =
     (let r = \<lparr>rt_id = newId a, rt_token = token, rt_userId = userId,
                rt_expiresAt = expiresAt, rt_isActive = True, rt_createdAt = now a\<rparr>
      in (r, s\<lparr>refreshTokens := refreshTokens s @ [r]\<rparr>))"

text \<open>
  \<^verbatim>\<open>relations: ['user']\<close> loads the row's user by its \<^verbatim>\<open>userId\<close>; the relation is empty
  when no such row exists.
\<close>

definition findRefreshToken :: "store \<Rightarrow> string \<Rightarrow> (refresh_token \<times> user option) option" where
  "findRefreshToken s token =
     (case find (\<lambda>r. rt_token r = token \<and> rt_isActive r) (refreshTokens s) of
        None \<Rightarrow> None
      | Some r \<Rightarrow> Some (r, find (\<lambda>u. u_id u = rt_userId r) (users s)))"

definition invalidateRefreshToken :: "store \<Rightarrow> string \<Rightarrow> store" where
  "invalidateRefreshToken s token =
     s\<lparr>refreshTokens :=
         map (\<lambda>r. if rt_token r = token then r\<lparr>rt_isActive := False\<rparr> else r) (refreshTokens s)\<rparr>"

section \<open>External libraries\<close>

text \<open>
  The Stellar SDK is a parameter of the model: \<^verbatim>\<open>Keypair.fromPublicKey\<close> decodes an address
  or throws (\<open>None\<close>), and \<^verbatim>\<open>verify\<close> checks a signature over the message bytes under the
  decoded key, or throws (\<open>None\<close>). Keys are byte lists; the message buffer is the message
  itself, a \<open>string\<close> being a list of bytes.
\<close>

record stellar_sdk =
  fromPublicKey :: "string \<Rightarrow> nat list option"
  verify :: "nat list \<Rightarrow> string \<Rightarrow> nat list \<Rightarrow> bool option"

text \<open>
  A JSON Web Token carries a claim set. The cryptography of the token library is a parameter:
  \<open>jwt_encode\<close> serialises and signs a claim set under a secret, \<open>jwt_decode\<close> gives the claim
  set of a well-formed token whose signature holds under the secret, and \<open>None\<close> otherwise.
  The handling of the time claims around it is the library's documented one: \<^verbatim>\<open>sign\<close> stamps
  \<^verbatim>\<open>iat\<close> in seconds and adds \<^verbatim>\<open>exp\<close> only when an \<^verbatim>\<open>expiresIn\<close> option is configured;
  \<^verbatim>\<open>verify\<close> throws on a token it cannot decode and on one whose \<^verbatim>\<open>exp\<close> is reached.
\<close>

record jwt_payload =
  p_sub :: string
  p_walletAddress :: string
  p_type :: string
  p_iat :: int
  p_exp :: "int option"

record jwt_lib =
  jwt_encode :: "jwt_payload \<Rightarrow> string \<Rightarrow> string"
  jwt_decode :: "string \<Rightarrow> string \<Rightarrow> jwt_payload option"

record jwt_module_options =
  secret :: string
  expiresIn :: "int option"

text \<open>The process environment: \<^verbatim>\<open>JWT_SECRET\<close> may be unset.\<close>

record config =
  JWT_SECRET :: "string option"

text \<open>
  \<^verbatim>\<open>auth.module.ts\<close>, \<^verbatim>\<open>JwtModule.registerAsync\<close>: the factory sets the secret and nothing
  else, so no sign option is configured.
\<close>

definition jwtModuleOptions :: "config \<Rightarrow> jwt_module_options" where
  "jwtModuleOptions cfg =
     \<lparr>secret = (case JWT_SECRET cfg of
                  None \<Rightarrow> ''your-secret-key-change-in-production''
                | Some k \<Rightarrow> if k = [] then ''your-secret-key-change-in-production'' else k),
      expiresIn = None\<rparr>"

definition jwt_claims :: "jwt_module_options \<Rightarrow> ambient \<Rightarrow> string \<Rightarrow> string \<Rightarrow> string \<Rightarrow> jwt_payload" where
  "jwt_claims opts a sub walletAddress type =
     \<lparr>p_sub = sub, p_walletAddress = walletAddress, p_type = type,
      p_iat = now a div 1000,
      p_exp = (case expiresIn opts of None \<Rightarrow> None | Some d \<Rightarrow> Some (now a div 1000 + d))\<rparr>"

definition jwt_sign ::
  "jwt_lib \<Rightarrow> jwt_module_options \<Rightarrow> ambient \<Rightarrow> string \<Rightarrow> string \<Rightarrow> string \<Rightarrow> string" where
  "jwt_sign jl opts a sub walletAddress type =
     jwt_encode jl (jwt_claims opts a sub walletAddress type) (secret opts)"

text \<open>
  \<^verbatim>\<open>jwtService.verify(token, {secret})\<close>: an undefined or empty secret option falls back to the
  module's secret.
\<close>

definition jwt_verify ::
  "jwt_lib \<Rightarrow> jwt_module_options \<Rightarrow> string option \<Rightarrow> ambient \<Rightarrow> string \<Rightarrow> jwt_payload option" where
  "jwt_verify jl opts secretOpt a token =
     (let k = (case secretOpt of None \<Rightarrow> secret opts
                | Some k' \<Rightarrow> if k' = [] then secret opts else k')
      in case jwt_decode jl token k of
           None \<Rightarrow> None
         | Some payload \<Rightarrow>
             (case p_exp payload of
                None \<Rightarrow> Some payload
              | Some e \<Rightarrow> if now a div 1000 \<ge> e then None else Some payload))"

section \<open>AuthService\<close>

definition challengeMessage :: "string \<Rightarrow> string" where
  "challengeMessage nonce = ''Sign this message to authenticate with Vaultix: '' @ nonce"

definition generateChallenge ::
  "store \<Rightarrow> ambient \<Rightarrow> string \<Rightarrow> (error + string \<times> string) \<times> store" where
  "generateChallenge s a walletAddress =
     (let nonce = toHex (randomBytes a 16);
          message = challengeMessage nonce
      in case findByWalletAddress s walletAddress of
           None \<Rightarrow>
             (let (u, s') = create s a \<lparr>d_walletAddress = Some walletAddress, d_nonce = Some (Some nonce)\<rparr>
              in (Inr (nonce, message), s'))
         | Some user \<Rightarrow>
             (case update s (u_id user) \<lparr>d_walletAddress = None, d_nonce = Some (Some nonce)\<rparr> of
                (Inl e, s') \<Rightarrow> (Inl e, s')
              | (Inr u, s') \<Rightarrow> (Inr (nonce, message), s')))"

definition generateAccessToken :: "jwt_lib \<Rightarrow> config \<Rightarrow> ambient \<Rightarrow> string \<Rightarrow> string \<Rightarrow> string" where
  "generateAccessToken jl cfg a userId walletAddress =
     jwt_sign jl (jwtModuleOptions cfg) a userId walletAddress ''access''"

definition generateRefreshToken :: "store \<Rightarrow> ambient \<Rightarrow> string \<Rightarrow> string \<times> store" where
  "generateRefreshToken s a userId =
     (let token = toHex (randomBytes a 32);
          expiresAt = setDatePlus7 a (now a);
          (r, s') = createRefreshToken s a token userId expiresAt
      in (token, s'))"

text \<open>
  The body of the \<^verbatim>\<open>try\<close> block of \<^verbatim>\<open>verifySignature\<close>: whatever it throws, its own
  \<^verbatim>\<open>UnauthorizedException('Invalid signature')\<close> included, is caught by the handler below it.
\<close>

definition checkSignature :: "stellar_sdk \<Rightarrow> string \<Rightarrow> string \<Rightarrow> string \<Rightarrow> error + unit" where
  "checkSignature sdk publicKey signature message =
     (case fromPublicKey sdk publicKey of
        None \<Rightarrow> Inl (Error ''invalid public key'')
      | Some verifier \<Rightarrow>
          (case verify sdk verifier message (fromHex signature) of
             None \<Rightarrow> Inl (Error ''verify failed'')
           | Some isValid \<Rightarrow>
               if \<not> isValid then Inl (UnauthorizedException ''Invalid signature'') else Inr ()))"

definition verifySignature ::
  "stellar_sdk \<Rightarrow> jwt_lib \<Rightarrow> config \<Rightarrow> store \<Rightarrow> ambient \<Rightarrow> string \<Rightarrow> string \<Rightarrow> string
     \<Rightarrow> (error + string \<times> string) \<times> store" where
  "verifySignature sdk jl cfg s a walletAddress signature publicKey =
     (case findByWalletAddress s walletAddress of
        None \<Rightarrow> (Inl (UnauthorizedException ''Invalid challenge. Please request a new one.''), s)
      | Some user \<Rightarrow>
          (case u_nonce user of
             None \<Rightarrow> (Inl (UnauthorizedException ''Invalid challenge. Please request a new one.''), s)
           | Some nonce \<Rightarrow>
               if nonce = [] then
                 (Inl (UnauthorizedException ''Invalid challenge. Please request a new one.''), s)
               else
                 (case checkSignature sdk publicKey signature (challengeMessage nonce) of
                    Inl e \<Rightarrow> (Inl (UnauthorizedException ''Signature verification failed''), s)
                  | Inr _ \<Rightarrow>
                      if publicKey \<noteq> walletAddress then
                        (Inl (UnauthorizedException ''Public key does not match wallet address''), s)
                      else
                        (case update s (u_id user) \<lparr>d_walletAddress = None, d_nonce = Some None\<rparr> of
                           (Inl e, s') \<Rightarrow> (Inl e, s')
                         | (Inr u, s') \<Rightarrow>
                             (let accessToken = generateAccessToken jl cfg a (u_id user) walletAddress;
                                  (refreshToken, s'') = generateRefreshToken s' a (u_id user)
                              in (Inr (accessToken, refreshToken), s''))))))"

definition refreshAccessToken ::
  "jwt_lib \<Rightarrow> config \<Rightarrow> store \<Rightarrow> ambient \<Rightarrow> string \<Rightarrow> (error + string \<times> string) \<times> store" where
  "refreshAccessToken jl cfg s a refreshToken =
     (case findRefreshToken s refreshToken of
        None \<Rightarrow> (Inl (UnauthorizedException ''Invalid or expired refresh token''), s)
      | Some (token, tokenUser) \<Rightarrow>
          if rt_expiresAt token < now a then
            (Inl (UnauthorizedException ''Invalid or expired refresh token''), s)
          else
            (let s' = invalidateRefreshToken s refreshToken
             in case tokenUser of
                  None \<Rightarrow> (Inl TypeError, s')
                | Some u \<Rightarrow>
                    (let newAccessToken = generateAccessToken jl cfg a (u_id u) (u_walletAddress u);
                         (newRefreshToken, s'') = generateRefreshToken s' a (u_id u)
                     in (Inr (newAccessToken, newRefreshToken), s''))))"

definition logout :: "store \<Rightarrow> string \<Rightarrow> (error + unit) \<times> store" where
  "logout s refreshToken = (Inr (), invalidateRefreshToken s refreshToken)"

definition getCurrentUser :: "store \<Rightarrow> string \<Rightarrow> error + user" where
  "getCurrentUser s userId =
     (case findById s userId of
        None \<Rightarrow> Inl (UnauthorizedException ''User not found'')
      | Some user \<Rightarrow> Inr user)"

text \<open>
  The body of the \<^verbatim>\<open>try\<close> block of \<^verbatim>\<open>validateToken\<close>, then the function with its
  \<^verbatim>\<open>catch\<close>, which replaces every exception by one \<^verbatim>\<open>UnauthorizedException\<close>.
\<close>

definition validateTokenBody ::
  "jwt_lib \<Rightarrow> config \<Rightarrow> ambient \<Rightarrow> string \<Rightarrow> error + string \<times> string" where
  "validateTokenBody jl cfg a token =
     (case jwt_verify jl (jwtModuleOptions cfg) (JWT_SECRET cfg) a token of
        None \<Rightarrow> Inl (Error ''jwt verification failed'')
      | Some payload \<Rightarrow>
          if p_type payload \<noteq> ''access'' then Inl (UnauthorizedException ''Invalid token type'')
          else Inr (p_sub payload, p_walletAddress payload))"

definition validateToken ::
  "jwt_lib \<Rightarrow> config \<Rightarrow> ambient \<Rightarrow> string \<Rightarrow> error + string \<times> string" where
  "validateToken jl cfg a token =
     (case validateTokenBody jl cfg a token of
        Inl e \<Rightarrow> Inl (UnauthorizedException ''Invalid token'')
      | Inr r \<Rightarrow> Inr r)"

section \<open>AuthGuard\<close>

text \<open>\<^verbatim>\<open>auth.guard.ts\<close>; the request is its \<^verbatim>\<open>Authorization\<close> header, if it has one.\<close>

definition startsWith :: "string \<Rightarrow> string \<Rightarrow> bool" where
  "startsWith s p = (take (length p) s = p)"

definition extractTokenFromHeader :: "string option \<Rightarrow> string option" where
  "extractTokenFromHeader authHeader =
     (case authHeader of
        None \<Rightarrow> None
      | Some h \<Rightarrow> if h \<noteq> [] \<and> startsWith h ''Bearer '' then Some (drop 7 h) else None)"

definition canActivate ::
  "jwt_lib \<Rightarrow> config \<Rightarrow> ambient \<Rightarrow> string option \<Rightarrow> error + string \<times> string" where
  "canActivate jl cfg a authHeader =
     (case extractTokenFromHeader authHeader of
        None \<Rightarrow> Inl (UnauthorizedException ''Access token is required'')
      | Some token \<Rightarrow>
          if token = [] then Inl (UnauthorizedException ''Access token is required'')
          else (case validateToken jl cfg a token of
                  Inl e \<Rightarrow> Inl (UnauthorizedException ''Invalid or expired token'')
                | Inr payload \<Rightarrow> Inr payload))"

section \<open>Requests in sequence\<close>

text \<open>
  The state-changing endpoints of \<^verbatim>\<open>auth.controller.ts\<close>; \<open>serve\<close> is the store a request
  leaves behind, \<open>run\<close> a sequence of requests, each with its own ambient readings.
\<close>

datatype request =
    Challenge string
  | Verify string string string
  | Refresh string
  | Logout string

fun serve :: "stellar_sdk \<Rightarrow> jwt_lib \<Rightarrow> config \<Rightarrow> store \<Rightarrow> ambient \<times> request \<Rightarrow> store" where
  "serve sdk jl cfg s (a, Challenge walletAddress) = snd (generateChallenge s a walletAddress)"
| "serve sdk jl cfg s (a, Verify walletAddress signature publicKey) =
     snd (verifySignature sdk jl cfg s a walletAddress signature publicKey)"
| "serve sdk jl cfg s (a, Refresh refreshToken) = snd (refreshAccessToken jl cfg s a refreshToken)"
| "serve sdk jl cfg s (a, Logout refreshToken) = snd (logout s refreshToken)"

definition run ::
  "stellar_sdk \<Rightarrow> jwt_lib \<Rightarrow> config \<Rightarrow> store \<Rightarrow> (ambient \<times> request) list \<Rightarrow> store" where
  "run sdk jl cfg s reqs = foldl (serve sdk jl cfg) s reqs"

section \<open>Conditions named by the specification\<close>

text \<open>
  A verification request is valid when the wallet's user has a pending nonce, the signature
  verifies over the message rebuilt from that nonce under the supplied public key, and the
  public key is the wallet address.
\<close>

definition validRequest :: "stellar_sdk \<Rightarrow> store \<Rightarrow> string \<Rightarrow> string \<Rightarrow> string \<Rightarrow> bool" where
  "validRequest sdk s walletAddress signature publicKey =
     (case findByWalletAddress s walletAddress of
        None \<Rightarrow> False
      | Some user \<Rightarrow>
          (case u_nonce user of
             None \<Rightarrow> False
           | Some nonce \<Rightarrow>
               nonce \<noteq> [] \<and>
               (case fromPublicKey sdk publicKey of
                  None \<Rightarrow> False
                | Some k \<Rightarrow> verify sdk k (challengeMessage nonce) (fromHex signature) = Some True) \<and>
               publicKey = walletAddress))"

text \<open>The wallet's user can be read back by identifier, that is, its row is active.\<close>

definition walletActive :: "store \<Rightarrow> string \<Rightarrow> bool" where
  "walletActive s walletAddress =
     (case findByWalletAddress s walletAddress of
        None \<Rightarrow> False
      | Some user \<Rightarrow> findById s (u_id user) \<noteq> None)"

text \<open>No active row carries the token value: the value is unknown or invalidated.\<close>

definition unusable :: "store \<Rightarrow> string \<Rightarrow> bool" where
  "unusable s token = (\<forall>r \<in> set (refreshTokens s). rt_token r = token \<longrightarrow> \<not> rt_isActive r)"

section \<open>Example data\<close>

text \<open>
  A toy signature scheme for concrete runs: a public key is valid when it is not empty, and
  the signature of a message is the message's own bytes.
\<close>

definition toySdk :: stellar_sdk where
  "toySdk = \<lparr>fromPublicKey = (\<lambda>pk. if pk = [] then None else Some (map of_char pk)),
             verify = (\<lambda>k m sg. if sg = [] then None else Some (sg = map of_char m))\<rparr>"

definition toySign :: "string \<Rightarrow> string" where
  "toySign m = toHex (map of_char m)"

text \<open>
  A toy token library: a token is readable when it is the encoding, under the given secret,
  of one of the claim sets of a fixed table.
\<close>

definition toyEncode :: "jwt_payload \<Rightarrow> string \<Rightarrow> string" where
  "toyEncode p k =
     k @ ''.'' @ p_sub p @ ''.'' @ p_walletAddress p @ ''.'' @ p_type p @
       (case p_exp p of None \<Rightarrow> ''.-'' | Some e \<Rightarrow> ''.+'')"

definition toyJwt :: "jwt_payload list \<Rightarrow> jwt_lib" where
  "toyJwt table = \<lparr>jwt_encode = toyEncode, jwt_decode = (\<lambda>t k. find (\<lambda>p. toyEncode p k = t) table)\<rparr>"

definition noSecret :: config where
  "noSecret = \<lparr>JWT_SECRET = None\<rparr>"

definition alice :: user where
  "alice = \<lparr>u_id = ''u1'', u_walletAddress = ''GA'', u_nonce = Some ''ab'',
            u_isActive = True, u_createdAt = 0\<rparr>"

definition amb :: "int \<Rightarrow> nat \<Rightarrow> string \<Rightarrow> ambient" where
  "amb t b i = \<lparr>now = t, localTZA = (\<lambda>_ _. 0), rnd = (\<lambda>_. b), newId = i\<rparr>"

definition aliceStore :: store where
  "aliceStore = \<lparr>users = [alice], refreshTokens = []\<rparr>"

definition dormantStore :: store where
  "dormantStore = \<lparr>users = [alice\<lparr>u_isActive := False\<rparr>], refreshTokens = []\<rparr>"

text \<open>Two refresh tokens of Alice: \<open>t1\<close> active and expiring at 5000, \<open>t2\<close> invalidated.\<close>

definition tokenRow :: "string \<Rightarrow> int \<Rightarrow> bool \<Rightarrow> refresh_token" where
  "tokenRow t e act = \<lparr>rt_id = ''r0'', rt_token = t, rt_userId = ''u1'', rt_expiresAt = e,
                       rt_isActive = act, rt_createdAt = 0\<rparr>"

definition tokenStore :: store where
  "tokenStore = \<lparr>users = [alice], refreshTokens = [tokenRow ''t1'' 5000 True, tokenRow ''t2'' 9000 False]\<rparr>"

text \<open>Claim sets for the toy token library: an access token as minted, and one of another type.\<close>

definition accessClaims :: jwt_payload where
  "accessClaims = \<lparr>p_sub = ''u1'', p_walletAddress = ''GA'', p_type = ''access'', p_iat = 1, p_exp = None\<rparr>"

definition resetClaims :: jwt_payload where
  "resetClaims = \<lparr>p_sub = ''u1'', p_walletAddress = ''GA'', p_type = ''reset'', p_iat = 1, p_exp = Some 9999\<rparr>"

definition expiredClaims :: jwt_payload where
  "expiredClaims = \<lparr>p_sub = ''u1'', p_walletAddress = ''GA'', p_type = ''access'', p_iat = 1, p_exp = Some 2\<rparr>"

definition toyTable :: "jwt_payload list" where
  "toyTable = [accessClaims, resetClaims, expiredClaims]"

text \<open>Requests that follow a refresh: another wallet, the replacement token, Alice again, a logout.\<close>

definition laterRequests :: "(ambient \<times> request) list" where
  "laterRequests =
     [(amb 2000 11 ''r2'', Challenge ''GB''),
      (amb 3000 12 ''r3'', Refresh (toHex (replicate 32 10))),
      (amb 4000 13 ''r4'', Verify ''GA'' (toySign (challengeMessage ''ab'')) ''GA''),
      (amb 4500 14 ''r5'', Logout ''t3'')]"

section \<open>Properties of the store operations\<close>

lemma find_map_stable:
  assumes "\<And>x. P (f x) = P x"
  shows "find P (map f xs) = map_option f (find P xs)"
  using assms by (induction xs) auto

lemma update_no_values:
  "\<not> hasValues d \<Longrightarrow> update s i d = (Inl UpdateValuesMissingError, s)"
  by (simp add: update_def)

lemma update_undefined_nonce:
  "update s i \<lparr>d_walletAddress = None, d_nonce = Some None\<rparr> = (Inl UpdateValuesMissingError, s)"
  by (simp add: update_def hasValues_def)

lemma snd_update:
  "hasValues d \<Longrightarrow> snd (update s i d) =
     s\<lparr>users := map (\<lambda>u. if u_id u = i then applyUserData d u else u) (users s)\<rparr>"
  by (simp add: update_def Let_def split: option.splits)

lemma findByWalletAddress_update:
  "findByWalletAddress (snd (update s i \<lparr>d_walletAddress = None, d_nonce = Some (Some n)\<rparr>)) w =
     map_option
       (\<lambda>u. if u_id u = i then applyUserData \<lparr>d_walletAddress = None, d_nonce = Some (Some n)\<rparr> u else u)
       (findByWalletAddress s w)"
proof -
  have "hasValues \<lparr>d_walletAddress = None, d_nonce = Some (Some n)\<rparr>"
    by (simp add: hasValues_def)
  then show ?thesis
    by (simp add: snd_update findByWalletAddress_def applyUserData_def find_map_stable)
qed

lemma fst_generateRefreshToken: "fst (generateRefreshToken s a i) = toHex (randomBytes a 32)"
  by (simp add: generateRefreshToken_def createRefreshToken_def Let_def)

lemma snd_generateRefreshToken:
  "snd (generateRefreshToken s a i) =
     s\<lparr>refreshTokens := refreshTokens s @
        [\<lparr>rt_id = newId a, rt_token = toHex (randomBytes a 32), rt_userId = i,
          rt_expiresAt = setDatePlus7 a (now a), rt_isActive = True, rt_createdAt = now a\<rparr>]\<rparr>"
  by (simp add: generateRefreshToken_def createRefreshToken_def Let_def)

lemma checkSignature_Inr:
  "checkSignature sdk pk sg m = Inr () \<longleftrightarrow>
     (\<exists>k. fromPublicKey sdk pk = Some k \<and> verify sdk k m (fromHex sg) = Some True)"
  by (auto simp: checkSignature_def split: option.splits)

text \<open>
  The ways out of \<open>verifySignature\<close>, in the order the code tries them. The last one is the
  call that is to clear the nonce: its partial entity holds \<^verbatim>\<open>undefined\<close> only, so the
  repository throws and nothing behind it is reached.
\<close>

lemma verifySignature_unfold:
  "verifySignature sdk jl cfg s a w sg pk =
    (case findByWalletAddress s w of
       None \<Rightarrow> (Inl (UnauthorizedException ''Invalid challenge. Please request a new one.''), s)
     | Some user \<Rightarrow>
        if u_nonce user = None \<or> u_nonce user = Some [] then
          (Inl (UnauthorizedException ''Invalid challenge. Please request a new one.''), s)
        else if checkSignature sdk pk sg (challengeMessage (the (u_nonce user))) \<noteq> Inr () then
          (Inl (UnauthorizedException ''Signature verification failed''), s)
        else if pk \<noteq> w then
          (Inl (UnauthorizedException ''Public key does not match wallet address''), s)
        else (Inl UpdateValuesMissingError, s))"
proof (cases "findByWalletAddress s w")
  case None
  then show ?thesis by (simp add: verifySignature_def)
next
  case (Some user)
  show ?thesis
    using Some
    by (cases "checkSignature sdk pk sg (challengeMessage (the (u_nonce user)))")
       (auto simp: verifySignature_def update_undefined_nonce split: option.splits)
qed

lemma snd_verifySignature: "snd (verifySignature sdk jl cfg s a w sg pk) = s"
  unfolding verifySignature_unfold by (simp split: option.splits)

lemma validRequest_iff:
  "validRequest sdk s w sg pk \<longleftrightarrow>
     (\<exists>user. findByWalletAddress s w = Some user \<and> u_nonce user \<noteq> None \<and> u_nonce user \<noteq> Some [] \<and>
        checkSignature sdk pk sg (challengeMessage (the (u_nonce user))) = Inr () \<and> pk = w)"
  by (auto simp: validRequest_def checkSignature_Inr split: option.splits)

text \<open>
  What \<open>verifySignature\<close> does on every input: a valid request ends in the repository's
  exception, any other request in \<open>UnauthorizedException\<close>, and no request gets tokens.
\<close>

lemma verifySignature_outcome:
  "(validRequest sdk s w sg pk \<longrightarrow>
      verifySignature sdk jl cfg s a w sg pk = (Inl UpdateValuesMissingError, s)) \<and>
   (\<not> validRequest sdk s w sg pk \<longrightarrow>
      (\<exists>m. verifySignature sdk jl cfg s a w sg pk = (Inl (UnauthorizedException m), s)))"
  unfolding verifySignature_unfold validRequest_iff
  by (auto split: option.splits)

section \<open>Challenge verification\<close>

text \<open>
  C1 does not hold of the code. \<open>verifySignature\<close> passes \<^verbatim>\<open>{ nonce: undefined }\<close> to clear the
  nonce, and the repository skips a key that holds \<^verbatim>\<open>undefined\<close>: for Alice's wallet with
  the pending nonce \<open>ab\<close> and her signed challenge the call ends in
  \<^verbatim>\<open>UpdateValuesMissingError\<close>, no tokens are returned, and the nonce is still stored.
\<close>

theorem verifySignature_keeps_nonce:
  "fst (verifySignature toySdk (toyJwt []) noSecret aliceStore (amb 1000 10 ''r1'') ''GA''
          (toySign (challengeMessage ''ab'')) ''GA'') = Inl UpdateValuesMissingError \<and>
   map u_nonce (users (snd (verifySignature toySdk (toyJwt []) noSecret aliceStore
          (amb 1000 10 ''r1'') ''GA'' (toySign (challengeMessage ''ab'')) ''GA''))) = [Some ''ab'']"
  by code_simp

text \<open>
  C3 does not hold of the code, by the same defect. Alice's request meets the three conditions
  and her row is active, yet \<open>verifySignature\<close> returns no tokens: it ends in the repository's
  \<^verbatim>\<open>UpdateValuesMissingError\<close>, which is not an \<open>UnauthorizedException\<close> either.
\<close>

theorem verifySignature_valid_request_fails:
  "validRequest toySdk aliceStore ''GA'' (toySign (challengeMessage ''ab'')) ''GA'' \<and>
   walletActive aliceStore ''GA'' \<and>
   verifySignature toySdk (toyJwt []) noSecret aliceStore (amb 1000 10 ''r1'') ''GA''
     (toySign (challengeMessage ''ab'')) ''GA'' = (Inl UpdateValuesMissingError, aliceStore)"
  by code_simp

text \<open>
  C9. When \<open>verifySignature\<close> fails, whatever the exception, the store is the one it was called
  on: the user's nonce is retained as it was and no refresh token is persisted.
\<close>

theorem verifySignature_failure_unchanged:
  assumes "fst (verifySignature sdk jl cfg s a w sg pk) = Inl e"
  shows "snd (verifySignature sdk jl cfg s a w sg pk) = s \<and>
         findByWalletAddress (snd (verifySignature sdk jl cfg s a w sg pk)) w = findByWalletAddress s w \<and>
         refreshTokens (snd (verifySignature sdk jl cfg s a w sg pk)) = refreshTokens s"
  by (simp add: snd_verifySignature)

text \<open>
  C9 on Alice's store: a wrong signature, a public key that is not the wallet address, a wallet
  without a user, and a public key that does not decode.
\<close>

theorem verifySignature_failure_unchanged_witness:
  "fst (verifySignature toySdk (toyJwt []) noSecret aliceStore (amb 1000 10 ''r1'') ''GA'' ''00'' ''GA'') =
     Inl (UnauthorizedException ''Signature verification failed'') \<and>
   snd (verifySignature toySdk (toyJwt []) noSecret aliceStore (amb 1000 10 ''r1'') ''GA'' ''00'' ''GA'') =
     aliceStore \<and>
   fst (verifySignature toySdk (toyJwt []) noSecret aliceStore (amb 1000 10 ''r1'') ''GA''
          (toySign (challengeMessage ''ab'')) ''GB'') =
     Inl (UnauthorizedException ''Public key does not match wallet address'') \<and>
   snd (verifySignature toySdk (toyJwt []) noSecret aliceStore (amb 1000 10 ''r1'') ''GA''
          (toySign (challengeMessage ''ab'')) ''GB'') = aliceStore \<and>
   fst (verifySignature toySdk (toyJwt []) noSecret aliceStore (amb 1000 10 ''r1'') ''GB'' ''00'' ''GB'') =
     Inl (UnauthorizedException ''Invalid challenge. Please request a new one.'') \<and>
   snd (verifySignature toySdk (toyJwt []) noSecret aliceStore (amb 1000 10 ''r1'') ''GB'' ''00'' ''GB'') =
     aliceStore \<and>
   fst (verifySignature toySdk (toyJwt []) noSecret aliceStore (amb 1000 10 ''r1'') ''GA'' ''00'' []) =
     Inl (UnauthorizedException ''Signature verification failed'') \<and>
   snd (verifySignature toySdk (toyJwt []) noSecret aliceStore (amb 1000 10 ''r1'') ''GA'' ''00'' []) =
     aliceStore"
proof -
  let ?a = "amb 1000 10 ''r1''"
  have h1: "fst (verifySignature toySdk (toyJwt []) noSecret aliceStore ?a ''GA'' ''00'' ''GA'') =
     Inl (UnauthorizedException ''Signature verification failed'')"
    by code_simp
  have h2: "fst (verifySignature toySdk (toyJwt []) noSecret aliceStore ?a ''GA''
          (toySign (challengeMessage ''ab'')) ''GB'') =
     Inl (UnauthorizedException ''Public key does not match wallet address'')"
    by code_simp
  have h3: "fst (verifySignature toySdk (toyJwt []) noSecret aliceStore ?a ''GB'' ''00'' ''GB'') =
     Inl (UnauthorizedException ''Invalid challenge. Please request a new one.'')"
    by code_simp
  have h4: "fst (verifySignature toySdk (toyJwt []) noSecret aliceStore ?a ''GA'' ''00'' []) =
     Inl (UnauthorizedException ''Signature verification failed'')"
    by code_simp
  note s1 = verifySignature_failure_unchanged[OF h1, THEN conjunct1]
  note s2 = verifySignature_failure_unchanged[OF h2, THEN conjunct1]
  note s3 = verifySignature_failure_unchanged[OF h3, THEN conjunct1]
  note s4 = verifySignature_failure_unchanged[OF h4, THEN conjunct1]
  from h1 s1 h2 s2 h3 s3 h4 s4 show ?thesis by (intro conjI)
qed

section \<open>Access tokens\<close>

lemma generateAccessToken_claims:
  "generateAccessToken jl cfg a userId w =
     jwt_encode jl \<lparr>p_sub = userId, p_walletAddress = w, p_type = ''access'',
                    p_iat = now a div 1000, p_exp = None\<rparr> (secret (jwtModuleOptions cfg))"
  by (simp add: generateAccessToken_def jwt_sign_def jwt_claims_def jwtModuleOptions_def)

text \<open>
  C2 does not hold of the code. The module registers the token service with a secret only and
  \<open>generateAccessToken\<close> signs the three claims without options, so the minted claim set has
  no expiry claim: a token minted at one instant is still accepted by \<open>validateToken\<close> a year
  later.
\<close>

theorem access_token_never_expires:
  "p_exp (jwt_claims (jwtModuleOptions noSecret) (amb 1000 10 ''r1'') ''u1'' ''GA'' ''access'') = None \<and>
   validateToken (toyJwt [accessClaims]) noSecret (amb (1000 + 365 * 86400000) 10 ''r2'')
     (generateAccessToken (toyJwt [accessClaims]) noSecret (amb 1000 10 ''r1'') ''u1'' ''GA'') =
   Inr (''u1'', ''GA'')"
  by code_simp

section \<open>Refresh tokens\<close>

lemma unusable_find:
  "unusable s t \<longleftrightarrow> find (\<lambda>r. rt_token r = t \<and> rt_isActive r) (refreshTokens s) = None"
  by (auto simp: unusable_def find_None_iff)

lemma unusable_findRefreshToken: "unusable s t \<longleftrightarrow> findRefreshToken s t = None"
  by (simp add: unusable_find findRefreshToken_def split: option.splits)

text \<open>
  C5, as the specification states it, fails at the boundary: a token whose expiry equals the
  current instant is accepted, since the code compares with \<open><\<close>.
\<close>

theorem refresh_at_expiry_instant_counterexample:
  "findRefreshToken tokenStore ''t1'' = Some (tokenRow ''t1'' 5000 True, Some alice) \<and>
   rt_expiresAt (tokenRow ''t1'' 5000 True) = now (amb 5000 10 ''r1'') \<and>
   fst (refreshAccessToken (toyJwt []) noSecret tokenStore (amb 5000 10 ''r1'') ''t1'') =
     Inr (''your-secret-key-change-in-production.u1.GA.access.-'', toHex (replicate 32 10))"
  by code_simp

text \<open>
  C5, amended. \<open>refreshAccessToken\<close> fails with \<open>UnauthorizedException\<close>, leaving the store as
  it was, whenever the presented token is unknown, inactive, or its expiry timestamp is
  strictly before the current time; a token found active whose expiry is the current instant
  or later is not rejected as unauthorized.
\<close>

theorem refreshAccessToken_rejects:
  "((unusable s t \<or> (\<exists>r u. findRefreshToken s t = Some (r, u) \<and> rt_expiresAt r < now a)) \<longrightarrow>
      refreshAccessToken jl cfg s a t =
        (Inl (UnauthorizedException ''Invalid or expired refresh token''), s)) \<and>
   ((\<exists>r u. findRefreshToken s t = Some (r, u) \<and> now a \<le> rt_expiresAt r) \<longrightarrow>
      (\<forall>m. fst (refreshAccessToken jl cfg s a t) \<noteq> Inl (UnauthorizedException m)))"
  by (auto simp: refreshAccessToken_def unusable_findRefreshToken Let_def case_prod_beta
           split: option.splits)

text \<open>
  C5, amended, on the token store: \<open>t1\<close> one millisecond after its expiry, the invalidated
  \<open>t2\<close>, the unknown \<open>t3\<close>, and \<open>t1\<close> one millisecond before its expiry.
\<close>

theorem refreshAccessToken_rejects_witness:
  "refreshAccessToken (toyJwt []) noSecret tokenStore (amb 5001 10 ''r1'') ''t1'' =
     (Inl (UnauthorizedException ''Invalid or expired refresh token''), tokenStore) \<and>
   refreshAccessToken (toyJwt []) noSecret tokenStore (amb 5001 10 ''r1'') ''t2'' =
     (Inl (UnauthorizedException ''Invalid or expired refresh token''), tokenStore) \<and>
   refreshAccessToken (toyJwt []) noSecret tokenStore (amb 5001 10 ''r1'') ''t3'' =
     (Inl (UnauthorizedException ''Invalid or expired refresh token''), tokenStore) \<and>
   fst (refreshAccessToken (toyJwt []) noSecret tokenStore (amb 4999 10 ''r1'') ''t1'') \<noteq>
     Inl (UnauthorizedException ''Invalid or expired refresh token'')"
proof -
  have f: "findRefreshToken tokenStore ''t1'' = Some (tokenRow ''t1'' 5000 True, Some alice)"
    by code_simp
  have e: "rt_expiresAt (tokenRow ''t1'' 5000 True) < now (amb 5001 10 ''r1'')"
    by code_simp
  have l: "now (amb 4999 10 ''r1'') \<le> rt_expiresAt (tokenRow ''t1'' 5000 True)"
    by code_simp
  have u2: "unusable tokenStore ''t2''" by code_simp
  have u3: "unusable tokenStore ''t3''" by code_simp
  have late: "\<exists>r u. findRefreshToken tokenStore ''t1'' = Some (r, u) \<and>
                rt_expiresAt r < now (amb 5001 10 ''r1'')"
    using f e by (intro exI conjI)
  have early: "\<exists>r u. findRefreshToken tokenStore ''t1'' = Some (r, u) \<and>
                now (amb 4999 10 ''r1'') \<le> rt_expiresAt r"
    using f l by (intro exI conjI)
  note R = refreshAccessToken_rejects[where jl = "toyJwt []" and cfg = noSecret and s = tokenStore]
  have 1: "refreshAccessToken (toyJwt []) noSecret tokenStore (amb 5001 10 ''r1'') ''t1'' =
     (Inl (UnauthorizedException ''Invalid or expired refresh token''), tokenStore)"
    by (rule R[THEN conjunct1, THEN mp, OF disjI2, OF late])
  have 2: "refreshAccessToken (toyJwt []) noSecret tokenStore (amb 5001 10 ''r1'') ''t2'' =
     (Inl (UnauthorizedException ''Invalid or expired refresh token''), tokenStore)"
    by (rule R[THEN conjunct1, THEN mp, OF disjI1, OF u2])
  have 3: "refreshAccessToken (toyJwt []) noSecret tokenStore (amb 5001 10 ''r1'') ''t3'' =
     (Inl (UnauthorizedException ''Invalid or expired refresh token''), tokenStore)"
    by (rule R[THEN conjunct1, THEN mp, OF disjI1, OF u3])
  have 4: "fst (refreshAccessToken (toyJwt []) noSecret tokenStore (amb 4999 10 ''r1'') ''t1'') \<noteq>
     Inl (UnauthorizedException ''Invalid or expired refresh token'')"
    by (rule R[THEN conjunct2, THEN mp, OF early, THEN spec])
  from 1 2 3 4 show ?thesis by (intro conjI)
qed

section \<open>Logout\<close>

lemma refreshTokens_invalidate:
  "refreshTokens (invalidateRefreshToken s t) =
     map (\<lambda>r. if rt_token r = t then r\<lparr>rt_isActive := False\<rparr> else r) (refreshTokens s)"
  by (simp add: invalidateRefreshToken_def)

lemma users_invalidate: "users (invalidateRefreshToken s t) = users s"
  by (simp add: invalidateRefreshToken_def)

lemma invalidate_rows_inactive:
  "\<forall>r \<in> set (map (\<lambda>r. if rt_token r = t then r\<lparr>rt_isActive := False\<rparr> else r) xs).
     rt_token r = t \<longrightarrow> \<not> rt_isActive r"
  for xs :: "refresh_token list"
proof -
  define F :: "refresh_token \<Rightarrow> refresh_token" where "F = (\<lambda>r. if rt_token r = t then r\<lparr>rt_isActive := False\<rparr> else r)"
  have "rt_token (F x) = t \<longrightarrow> \<not> rt_isActive (F x)" for x
    by (simp add: F_def)
  then have "\<forall>r \<in> set (map F xs). rt_token r = t \<longrightarrow> \<not> rt_isActive r"
    by simp
  then show ?thesis
    unfolding F_def .
qed

lemma unusable_invalidate: "unusable (invalidateRefreshToken s t) t"
  unfolding unusable_def refreshTokens_invalidate by (rule invalidate_rows_inactive)

lemma invalidate_rows_idem:
  "map (\<lambda>r. if rt_token r = t then r\<lparr>rt_isActive := False\<rparr> else r)
     (map (\<lambda>r. if rt_token r = t then r\<lparr>rt_isActive := False\<rparr> else r) xs) =
   map (\<lambda>r. if rt_token r = t then r\<lparr>rt_isActive := False\<rparr> else r) xs"
  for xs :: "refresh_token list"
  by (induction xs) simp_all

lemma invalidate_idem:
  "invalidateRefreshToken (invalidateRefreshToken s t) t = invalidateRefreshToken s t"
  by (simp add: invalidateRefreshToken_def invalidate_rows_idem)

lemma invalidate_rows_unusable:
  "\<forall>r \<in> set xs. rt_token r = t \<longrightarrow> \<not> rt_isActive r \<Longrightarrow>
   map (\<lambda>r. if rt_token r = t then r\<lparr>rt_isActive := False\<rparr> else r) xs = xs"
  for xs :: "refresh_token list"
  by (induction xs) simp_all

lemma invalidate_unusable: "unusable s t \<Longrightarrow> invalidateRefreshToken s t = s"
  by (simp add: invalidateRefreshToken_def unusable_def invalidate_rows_unusable)

text \<open>
  C8. For every token value \<open>logout\<close> completes without an error; afterwards no active row
  carries the value, so \<open>findRefreshToken\<close> finds nothing; a second \<open>logout\<close> gives the same
  outcome and store as the first; and on a value that is unknown or already inactive it
  changes nothing.
\<close>

theorem logout_fail_soft:
  "fst (logout s t) = Inr () \<and>
   unusable (snd (logout s t)) t \<and>
   findRefreshToken (snd (logout s t)) t = None \<and>
   logout (snd (logout s t)) t = logout s t \<and>
   (unusable s t \<longrightarrow> logout s t = (Inr (), s))"
proof -
  have 1: "unusable (snd (logout s t)) t"
    by (simp add: logout_def unusable_invalidate)
  then have 2: "findRefreshToken (snd (logout s t)) t = None"
    by (simp only: unusable_findRefreshToken)
  have 3: "logout (snd (logout s t)) t = logout s t"
    by (simp add: logout_def invalidate_idem)
  have 4: "unusable s t \<longrightarrow> logout s t = (Inr (), s)"
    by (simp add: logout_def invalidate_unusable)
  have 0: "fst (logout s t) = Inr ()"
    by (simp add: logout_def)
  from 0 1 2 3 4 show ?thesis by (intro conjI)
qed

text \<open>C8 on the token store: the invalidated \<open>t2\<close>, the unknown \<open>t3\<close>, the active \<open>t1\<close>.\<close>

theorem logout_fail_soft_witness:
  "unusable tokenStore ''t2'' \<and> logout tokenStore ''t2'' = (Inr (), tokenStore) \<and>
   unusable tokenStore ''t3'' \<and> logout tokenStore ''t3'' = (Inr (), tokenStore) \<and>
   \<not> unusable tokenStore ''t1'' \<and> fst (logout tokenStore ''t1'') = Inr () \<and>
   unusable (snd (logout tokenStore ''t1'')) ''t1''"
proof -
  have u2: "unusable tokenStore ''t2''" by code_simp
  have u3: "unusable tokenStore ''t3''" by code_simp
  have u1: "\<not> unusable tokenStore ''t1''" by code_simp
  note L1 = logout_fail_soft[of tokenStore "''t1''"]
  note L2 = logout_fail_soft[of tokenStore "''t2''"]
  note L3 = logout_fail_soft[of tokenStore "''t3''"]
  have l2: "logout tokenStore ''t2'' = (Inr (), tokenStore)"
    using L2 u2 by (elim conjE) (erule (1) mp)
  have l3: "logout tokenStore ''t3'' = (Inr (), tokenStore)"
    using L3 u3 by (elim conjE) (erule (1) mp)
  have l1: "fst (logout tokenStore ''t1'') = Inr ()"
    by (rule L1[THEN conjunct1])
  have l1': "unusable (snd (logout tokenStore ''t1'')) ''t1''"
    by (rule L1[THEN conjunct2, THEN conjunct1])
  from u2 l2 u3 l3 u1 l1 l1' show ?thesis by (intro conjI)
qed

section \<open>Current user\<close>

text \<open>
  C10. \<open>getCurrentUser\<close> fails with \<open>UnauthorizedException\<close> exactly when no row with the
  identifier is active, be it that the identifier is absent or that its row has the active
  flag off; it fails in no other way, and a user it returns is an active row with that
  identifier.
\<close>

theorem getCurrentUser_inactive_unauthorized:
  "(getCurrentUser s userId = Inl (UnauthorizedException ''User not found'') \<longleftrightarrow>
      (\<forall>u \<in> set (users s). u_id u = userId \<longrightarrow> \<not> u_isActive u)) \<and>
   (\<forall>e. getCurrentUser s userId = Inl e \<longrightarrow> e = UnauthorizedException ''User not found'') \<and>
   (\<forall>u. getCurrentUser s userId = Inr u \<longrightarrow> u \<in> set (users s) \<and> u_id u = userId \<and> u_isActive u)"
proof -
  have none: "findById s userId = None \<longleftrightarrow> (\<forall>u \<in> set (users s). u_id u = userId \<longrightarrow> \<not> u_isActive u)"
    by (auto simp: findById_def find_None_iff)
  have some: "findById s userId = Some u \<Longrightarrow> u \<in> set (users s) \<and> u_id u = userId \<and> u_isActive u" for u
  proof -
    have "find P xs = Some x \<Longrightarrow> x \<in> set xs \<and> P x" for P and xs :: "user list" and x
      by (induction xs) (auto split: if_splits)
    then show "findById s userId = Some u \<Longrightarrow> u \<in> set (users s) \<and> u_id u = userId \<and> u_isActive u"
      unfolding findById_def by fastforce
  qed
  show ?thesis
    using none some by (auto simp: getCurrentUser_def split: option.splits)
qed

text \<open>
  C10 on concrete stores: the deactivated Alice and an absent identifier give the same
  failure; the active Alice is returned.
\<close>

theorem getCurrentUser_inactive_unauthorized_witness:
  "map u_id (users dormantStore) = [''u1''] \<and>
   getCurrentUser dormantStore ''u1'' = Inl (UnauthorizedException ''User not found'') \<and>
   getCurrentUser dormantStore ''u2'' = Inl (UnauthorizedException ''User not found'') \<and>
   getCurrentUser aliceStore ''u1'' = Inr alice"
proof -
  have d: "\<forall>u \<in> set (users dormantStore). u_id u = i \<longrightarrow> \<not> u_isActive u" for i
    by (simp add: dormantStore_def)
  have m: "map u_id (users dormantStore) = [''u1'']" by code_simp
  have a: "getCurrentUser aliceStore ''u1'' = Inr alice" by code_simp
  show ?thesis
    using d[of "''u1''"] d[of "''u2''"] m a
      getCurrentUser_inactive_unauthorized[of dormantStore "''u1''", THEN conjunct1]
      getCurrentUser_inactive_unauthorized[of dormantStore "''u2''", THEN conjunct1]
    by (simp only: simp_thms)
qed

section \<open>Token validation\<close>

lemma effective_secret:
  "(case JWT_SECRET cfg of None \<Rightarrow> secret (jwtModuleOptions cfg)
    | Some k' \<Rightarrow> if k' = [] then secret (jwtModuleOptions cfg) else k') = secret (jwtModuleOptions cfg)"
  by (simp add: jwtModuleOptions_def split: option.splits)

lemma validateToken_cases:
  "validateToken jl cfg a tok =
     (case jwt_decode jl tok (secret (jwtModuleOptions cfg)) of
        None \<Rightarrow> Inl (UnauthorizedException ''Invalid token'')
      | Some p \<Rightarrow>
          if (case p_exp p of None \<Rightarrow> False | Some e \<Rightarrow> e \<le> now a div 1000) then
            Inl (UnauthorizedException ''Invalid token'')
          else if p_type p \<noteq> ''access'' then Inl (UnauthorizedException ''Invalid token'')
          else Inr (p_sub p, p_walletAddress p))"
  by (simp add: validateToken_def validateTokenBody_def jwt_verify_def effective_secret Let_def
           split: option.splits)

lemma canActivate_Bearer:
  "tok \<noteq> [] \<Longrightarrow> canActivate jl cfg a (Some (''Bearer '' @ tok)) =
     (case validateToken jl cfg a tok of
        Inl e \<Rightarrow> Inl (UnauthorizedException ''Invalid or expired token'')
      | Inr payload \<Rightarrow> Inr payload)"
  by (simp add: canActivate_def extractTokenFromHeader_def startsWith_def)

text \<open>
  C6. \<open>validateToken\<close> rejects a token whose type claim is not \<open>access\<close> whenever the token
  decodes under the server secret, valid signature and unreached expiry included; a token that
  does not decode (bad signature, malformed) and one whose expiry is reached are rejected too;
  and every rejection is the same \<open>UnauthorizedException\<close>, which the guard in turn replaces
  by its own single exception.
\<close>

theorem validateToken_single_outcome:
  "(\<forall>p. jwt_decode jl tok (secret (jwtModuleOptions cfg)) = Some p \<longrightarrow> p_type p \<noteq> ''access'' \<longrightarrow>
        validateToken jl cfg a tok = Inl (UnauthorizedException ''Invalid token'')) \<and>
   (jwt_decode jl tok (secret (jwtModuleOptions cfg)) = None \<longrightarrow>
        validateToken jl cfg a tok = Inl (UnauthorizedException ''Invalid token'')) \<and>
   (\<forall>p e. jwt_decode jl tok (secret (jwtModuleOptions cfg)) = Some p \<longrightarrow> p_exp p = Some e \<longrightarrow>
        e \<le> now a div 1000 \<longrightarrow>
        validateToken jl cfg a tok = Inl (UnauthorizedException ''Invalid token'')) \<and>
   (\<forall>e. validateToken jl cfg a tok = Inl e \<longrightarrow> e = UnauthorizedException ''Invalid token'') \<and>
   (\<forall>e. validateToken jl cfg a tok = Inl e \<longrightarrow> tok \<noteq> [] \<longrightarrow>
        canActivate jl cfg a (Some (''Bearer '' @ tok)) =
          Inl (UnauthorizedException ''Invalid or expired token''))"
proof (intro conjI allI impI)
  fix p assume "jwt_decode jl tok (secret (jwtModuleOptions cfg)) = Some p" "p_type p \<noteq> ''access''"
  then show "validateToken jl cfg a tok = Inl (UnauthorizedException ''Invalid token'')"
    by (simp add: validateToken_cases)
next
  assume "jwt_decode jl tok (secret (jwtModuleOptions cfg)) = None"
  then show "validateToken jl cfg a tok = Inl (UnauthorizedException ''Invalid token'')"
    by (simp add: validateToken_cases)
next
  fix p e assume "jwt_decode jl tok (secret (jwtModuleOptions cfg)) = Some p" "p_exp p = Some e"
    "e \<le> now a div 1000"
  then show "validateToken jl cfg a tok = Inl (UnauthorizedException ''Invalid token'')"
    by (simp add: validateToken_cases)
next
  fix e assume "validateToken jl cfg a tok = Inl e"
  then show "e = UnauthorizedException ''Invalid token''"
    by (simp add: validateToken_def split: sum.splits)
next
  fix e assume v: "validateToken jl cfg a tok = Inl e" and ne: "tok \<noteq> []"
  show "canActivate jl cfg a (Some (''Bearer '' @ tok)) =
          Inl (UnauthorizedException ''Invalid or expired token'')"
    unfolding canActivate_Bearer[OF ne] v by (simp only: sum.case)
qed

text \<open>
  C6 on the toy token library: a validly signed, unexpired token of type \<open>reset\<close>, a malformed
  token, a token signed with another secret and an expired access token end in the same
  exception; the guard turns the first into its own.
\<close>

theorem validateToken_single_outcome_witness:
  "validateToken (toyJwt toyTable) noSecret (amb 1000 0 [])
     (toyEncode resetClaims (secret (jwtModuleOptions noSecret))) =
     Inl (UnauthorizedException ''Invalid token'') \<and>
   validateToken (toyJwt toyTable) noSecret (amb 1000 0 []) ''garbage'' =
     Inl (UnauthorizedException ''Invalid token'') \<and>
   validateToken (toyJwt toyTable) noSecret (amb 1000 0 []) (toyEncode accessClaims ''forged'') =
     Inl (UnauthorizedException ''Invalid token'') \<and>
   validateToken (toyJwt toyTable) noSecret (amb 2000 0 [])
     (toyEncode expiredClaims (secret (jwtModuleOptions noSecret))) =
     Inl (UnauthorizedException ''Invalid token'') \<and>
   canActivate (toyJwt toyTable) noSecret (amb 1000 0 [])
     (Some (''Bearer '' @ toyEncode resetClaims (secret (jwtModuleOptions noSecret)))) =
     Inl (UnauthorizedException ''Invalid or expired token'')"
proof -
  let ?k = "secret (jwtModuleOptions noSecret)"
  let ?jl = "toyJwt toyTable"
  note V = validateToken_single_outcome[where jl = ?jl and cfg = noSecret]
  have d1: "jwt_decode ?jl (toyEncode resetClaims ?k) ?k = Some resetClaims" by code_simp
  have t1: "p_type resetClaims \<noteq> ''access''" by code_simp
  have 1: "validateToken ?jl noSecret (amb 1000 0 []) (toyEncode resetClaims ?k) =
             Inl (UnauthorizedException ''Invalid token'')"
    by (rule V[THEN conjunct1, THEN spec, THEN mp, THEN mp, OF d1 t1])
  have d2: "jwt_decode ?jl ''garbage'' ?k = None" by code_simp
  have 2: "validateToken ?jl noSecret (amb 1000 0 []) ''garbage'' =
             Inl (UnauthorizedException ''Invalid token'')"
    by (rule V[THEN conjunct2, THEN conjunct1, THEN mp, OF d2])
  have d3: "jwt_decode ?jl (toyEncode accessClaims ''forged'') ?k = None" by code_simp
  have 3: "validateToken ?jl noSecret (amb 1000 0 []) (toyEncode accessClaims ''forged'') =
             Inl (UnauthorizedException ''Invalid token'')"
    by (rule V[THEN conjunct2, THEN conjunct1, THEN mp, OF d3])
  have d4: "jwt_decode ?jl (toyEncode expiredClaims ?k) ?k = Some expiredClaims" by code_simp
  have e4: "p_exp expiredClaims = Some 2" by code_simp
  have n4: "2 \<le> now (amb 2000 0 []) div 1000" by code_simp
  have 4: "validateToken ?jl noSecret (amb 2000 0 []) (toyEncode expiredClaims ?k) =
             Inl (UnauthorizedException ''Invalid token'')"
    by (rule V[THEN conjunct2, THEN conjunct2, THEN conjunct1, THEN spec, THEN spec,
                THEN mp, THEN mp, THEN mp, OF d4 e4 n4])
  have ne: "toyEncode resetClaims ?k \<noteq> []" by code_simp
  have 5: "canActivate ?jl noSecret (amb 1000 0 []) (Some (''Bearer '' @ toyEncode resetClaims ?k)) =
             Inl (UnauthorizedException ''Invalid or expired token'')"
    by (rule V[THEN conjunct2, THEN conjunct2, THEN conjunct2, THEN conjunct2, THEN spec,
                THEN mp, THEN mp, OF 1 ne])
  from 1 2 3 4 5 show ?thesis by (intro conjI)
qed

section \<open>Refresh token rotation\<close>

lemma refreshTokens_update: "refreshTokens (snd (update s i d)) = refreshTokens s"
  by (cases "hasValues d") (simp_all add: snd_update update_no_values)

lemma refreshTokens_generateChallenge:
  "refreshTokens (snd (generateChallenge s a w)) = refreshTokens s"
proof (cases "findByWalletAddress s w")
  case None
  then show ?thesis by (simp add: generateChallenge_def create_def Let_def)
next
  case (Some user)
  obtain r s' where up: "update s (u_id user) \<lparr>d_walletAddress = None, d_nonce = Some (Some (toHex (randomBytes a 16)))\<rparr> = (r, s')"
    by (cases "update s (u_id user) \<lparr>d_walletAddress = None, d_nonce = Some (Some (toHex (randomBytes a 16)))\<rparr>")
  then have "refreshTokens s' = refreshTokens s"
    using refreshTokens_update[of s "u_id user" "\<lparr>d_walletAddress = None, d_nonce = Some (Some (toHex (randomBytes a 16)))\<rparr>"]
    by simp
  then show ?thesis
    using Some up by (cases r) (simp_all add: generateChallenge_def Let_def)
qed

lemma refreshAccessToken_unfold:
  "refreshAccessToken jl cfg s a t =
     (case findRefreshToken s t of
        None \<Rightarrow> (Inl (UnauthorizedException ''Invalid or expired refresh token''), s)
      | Some (r, tokenUser) \<Rightarrow>
          if rt_expiresAt r < now a then
            (Inl (UnauthorizedException ''Invalid or expired refresh token''), s)
          else
            (case tokenUser of
               None \<Rightarrow> (Inl TypeError, invalidateRefreshToken s t)
             | Some u \<Rightarrow>
                 (Inr (generateAccessToken jl cfg a (u_id u) (u_walletAddress u), toHex (randomBytes a 32)),
                  snd (generateRefreshToken (invalidateRefreshToken s t) a (u_id u)))))"
  by (simp add: refreshAccessToken_def Let_def case_prod_beta fst_generateRefreshToken
           split: option.splits)

lemma unusable_invalidate_other:
  assumes "unusable s t"
  shows "unusable (invalidateRefreshToken s t') t"
proof -
  define F :: "refresh_token \<Rightarrow> refresh_token" where
    "F = (\<lambda>r. if rt_token r = t' then r\<lparr>rt_isActive := False\<rparr> else r)"
  have "rt_token (F x) = rt_token x \<and> (rt_isActive (F x) \<longrightarrow> rt_isActive x)" for x
    by (simp add: F_def)
  then have "\<forall>r \<in> set (map F (refreshTokens s)). rt_token r = t \<longrightarrow> \<not> rt_isActive r"
    using assms by (auto simp: unusable_def)
  then show ?thesis
    unfolding unusable_def refreshTokens_invalidate F_def .
qed

lemma unusable_generateRefreshToken:
  assumes "unusable s t" and "toHex (randomBytes a 32) \<noteq> t"
  shows "unusable (snd (generateRefreshToken s a i)) t"
  using assms by (simp add: unusable_def snd_generateRefreshToken)

lemma unusable_verifySignature:
  assumes "unusable s t"
  shows "unusable (snd (verifySignature sdk jl cfg s a w sg pk)) t"
  using assms by (simp add: snd_verifySignature)

lemma refreshAccessToken_store_cases:
  "snd (refreshAccessToken jl cfg s a t') = s \<or>
   snd (refreshAccessToken jl cfg s a t') = invalidateRefreshToken s t' \<or>
   (\<exists>i. snd (refreshAccessToken jl cfg s a t') =
          snd (generateRefreshToken (invalidateRefreshToken s t') a i))"
proof (cases "findRefreshToken s t'")
  case None
  then show ?thesis by (simp add: refreshAccessToken_unfold)
next
  case (Some ru)
  obtain r tokenUser where ru: "ru = (r, tokenUser)" by (cases ru)
  show ?thesis
  proof (cases tokenUser)
    case None
    then show ?thesis by (simp add: refreshAccessToken_unfold Some ru)
  next
    case (Some u)
    have "snd (refreshAccessToken jl cfg s a t') = s \<or>
          snd (refreshAccessToken jl cfg s a t') =
            snd (generateRefreshToken (invalidateRefreshToken s t') a (u_id u))"
      by (simp add: refreshAccessToken_unfold \<open>findRefreshToken s t' = Some ru\<close> ru Some)
    then show ?thesis by blast
  qed
qed

lemma unusable_refreshAccessToken:
  assumes "unusable s t" and "toHex (randomBytes a 32) \<noteq> t"
  shows "unusable (snd (refreshAccessToken jl cfg s a t')) t"
proof -
  have u: "unusable (invalidateRefreshToken s t') t"
    using assms(1) by (rule unusable_invalidate_other)
  from refreshAccessToken_store_cases[of jl cfg s a t'] show ?thesis
  proof (elim disjE exE)
    assume "snd (refreshAccessToken jl cfg s a t') = s"
    then show ?thesis using assms(1) by simp
  next
    assume "snd (refreshAccessToken jl cfg s a t') = invalidateRefreshToken s t'"
    then show ?thesis using u by simp
  next
    fix i assume "snd (refreshAccessToken jl cfg s a t') =
                    snd (generateRefreshToken (invalidateRefreshToken s t') a i)"
    then show ?thesis using unusable_generateRefreshToken[OF u assms(2), of i] by simp
  qed
qed

lemma unusable_serve:
  assumes "unusable s t" and "toHex (randomBytes a 32) \<noteq> t"
  shows "unusable (serve sdk jl cfg s (a, r)) t"
proof (cases r)
  case (Challenge w)
  then show ?thesis
    using assms(1) by (simp add: unusable_def refreshTokens_generateChallenge)
next
  case (Verify w sg pk)
  then show ?thesis
    using unusable_verifySignature[OF assms(1)] by simp
next
  case (Refresh t')
  then show ?thesis
    using unusable_refreshAccessToken[OF assms] by simp
next
  case (Logout t')
  then show ?thesis
    using unusable_invalidate_other[OF assms(1)] by (simp add: logout_def)
qed

lemma unusable_run:
  assumes "unusable s t" and "\<forall>(a, r) \<in> set reqs. toHex (randomBytes a 32) \<noteq> t"
  shows "unusable (run sdk jl cfg s reqs) t"
  using assms
proof (induction reqs arbitrary: s)
  case Nil
  then show ?case by (simp add: run_def)
next
  case (Cons ar reqs)
  obtain a r where ar: "ar = (a, r)" by (cases ar)
  with Cons.prems have "unusable (serve sdk jl cfg s (a, r)) t"
    by (intro unusable_serve) auto
  with Cons.IH[of "serve sdk jl cfg s (a, r)"] Cons.prems ar show ?case
    by (simp add: run_def)
qed

lemma refreshAccessToken_unusable:
  "unusable s t \<Longrightarrow> refreshAccessToken jl cfg s a t =
     (Inl (UnauthorizedException ''Invalid or expired refresh token''), s)"
  by (simp add: refreshAccessToken_def unusable_findRefreshToken)

text \<open>
  C4. A successful \<open>refreshAccessToken\<close> leaves the presented token value without an active
  row (it is invalidated before the replacements are minted), and after any further requests
  a \<open>refreshAccessToken\<close> with the same value fails with \<open>UnauthorizedException\<close>. Token values
  are random draws; the statement is for draws that do not repeat the presented value.
\<close>

theorem refresh_token_single_use:
  assumes ok: "refreshAccessToken jl cfg s a t = (Inr (newAccessToken, newRefreshToken), s')"
    and fresh: "newRefreshToken \<noteq> t"
    and later: "\<forall>(a', r) \<in> set reqs. toHex (randomBytes a' 32) \<noteq> t"
  shows "unusable s' t \<and>
         refreshAccessToken jl' cfg' (run sdk jl cfg s' reqs) a'' t =
           (Inl (UnauthorizedException ''Invalid or expired refresh token''), run sdk jl cfg s' reqs)"
proof -
  from ok have "\<exists>i. s' = snd (generateRefreshToken (invalidateRefreshToken s t) a i) \<and>
                 newRefreshToken = toHex (randomBytes a 32)"
    unfolding refreshAccessToken_unfold
    by (auto split: option.splits if_splits)
  then obtain i where
    s': "s' = snd (generateRefreshToken (invalidateRefreshToken s t) a i)" and
    n: "newRefreshToken = toHex (randomBytes a 32)"
    by blast
  have "unusable s' t"
    unfolding s' using unusable_invalidate fresh[unfolded n] by (rule unusable_generateRefreshToken)
  moreover from this later have "unusable (run sdk jl cfg s' reqs) t"
    by (rule unusable_run)
  ultimately show ?thesis
    by (simp add: refreshAccessToken_unusable)
qed

text \<open>
  C4 on the token store: \<open>t1\<close> is rotated, four more requests are served, and \<open>t1\<close> is refused.
\<close>

theorem refresh_token_single_use_witness:
  "fst (refreshAccessToken (toyJwt []) noSecret tokenStore (amb 1000 10 ''r1'') ''t1'') =
     Inr (''your-secret-key-change-in-production.u1.GA.access.-'', toHex (replicate 32 10)) \<and>
   fst (refreshAccessToken (toyJwt []) noSecret
          (run toySdk (toyJwt []) noSecret
             (snd (refreshAccessToken (toyJwt []) noSecret tokenStore (amb 1000 10 ''r1'') ''t1''))
             laterRequests)
          (amb 4600 15 ''r6'') ''t1'') =
     Inl (UnauthorizedException ''Invalid or expired refresh token'')"
proof -
  let ?R = "refreshAccessToken (toyJwt []) noSecret tokenStore (amb 1000 10 ''r1'') ''t1''"
  have h1: "fst ?R = Inr (''your-secret-key-change-in-production.u1.GA.access.-'', toHex (replicate 32 10))"
    by code_simp
  then have ok: "?R = (Inr (''your-secret-key-change-in-production.u1.GA.access.-'', toHex (replicate 32 10)), snd ?R)"
    by (simp add: prod_eq_iff)
  have fresh: "toHex (replicate 32 10) \<noteq> ''t1''" by code_simp
  have later: "\<forall>(a', r) \<in> set laterRequests. toHex (randomBytes a' 32) \<noteq> ''t1''"
    by code_simp
  have "refreshAccessToken (toyJwt []) noSecret (run toySdk (toyJwt []) noSecret (snd ?R) laterRequests)
          (amb 4600 15 ''r6'') ''t1'' =
        (Inl (UnauthorizedException ''Invalid or expired refresh token''),
         run toySdk (toyJwt []) noSecret (snd ?R) laterRequests)"
    by (rule refresh_token_single_use[OF ok fresh later, THEN conjunct2])
  then show ?thesis
    using h1 by (simp only: fst_conv simp_thms)
qed

section \<open>Challenge issuance\<close>

lemma length_toHex: "length (toHex bs) = 2 * length bs"
  by (induction bs) (simp_all add: toHex_def)

lemma nonce_nonempty: "toHex (randomBytes a 16) \<noteq> []"
proof -
  have "length (toHex (randomBytes a 16)) = 32"
    by (simp add: length_toHex randomBytes_def)
  then show ?thesis by auto
qed

lemma find_append:
  "find P (xs @ ys) = (case find P xs of None \<Rightarrow> find P ys | Some x \<Rightarrow> Some x)"
  by (induction xs) simp_all

lemma generateChallenge_stores:
  "\<exists>u. findByWalletAddress (snd (generateChallenge s a w)) w = Some u \<and>
       u_nonce u = Some (toHex (randomBytes a 16))"
proof (cases "findByWalletAddress s w")
  case None
  then show ?thesis
    by (simp add: generateChallenge_def create_def Let_def findByWalletAddress_def find_append
          applyUserData_def)
next
  case (Some user)
  let ?d = "\<lparr>d_walletAddress = None, d_nonce = Some (Some (toHex (randomBytes a 16)))\<rparr>"
  obtain r s' where up: "update s (u_id user) ?d = (r, s')"
    by (cases "update s (u_id user) ?d")
  then have s': "s' = snd (update s (u_id user) ?d)" by simp
  have g: "snd (generateChallenge s a w) = s'"
    using Some up by (cases r) (simp_all add: generateChallenge_def Let_def)
  have "findByWalletAddress s' w = Some (applyUserData ?d user)"
    unfolding s' by (simp add: findByWalletAddress_update Some)
  moreover have "u_nonce (applyUserData ?d user) = Some (toHex (randomBytes a 16))"
    by (simp add: applyUserData_def)
  ultimately show ?thesis using g by simp
qed

lemma challengeMessage_inj: "challengeMessage n = challengeMessage n' \<Longrightarrow> n = n'"
  by (simp add: challengeMessage_def)

text \<open>
  C7. After two \<open>generateChallenge\<close> calls for a wallet the stored nonce is the second one,
  whatever was stored before, so one challenge is outstanding; and a signature over the first
  challenge message, the two nonces being different draws, fails \<open>verifySignature\<close> with
  \<open>UnauthorizedException\<close>. That the signature is one over the first message is stated through
  the scheme: it verifies over no message but the first.
\<close>

theorem generateChallenge_overwrites:
  assumes differ: "toHex (randomBytes a2 16) \<noteq> toHex (randomBytes a1 16)"
    and first_only: "\<forall>k m. fromPublicKey sdk pk = Some k \<longrightarrow>
           verify sdk k m (fromHex sg) = Some True \<longrightarrow>
           m = challengeMessage (toHex (randomBytes a1 16))"
  shows "(\<exists>u. findByWalletAddress (snd (generateChallenge (snd (generateChallenge s a1 w)) a2 w)) w = Some u \<and>
              u_nonce u = Some (toHex (randomBytes a2 16))) \<and>
         verifySignature sdk jl cfg (snd (generateChallenge (snd (generateChallenge s a1 w)) a2 w)) a w sg pk =
           (Inl (UnauthorizedException ''Signature verification failed''),
            snd (generateChallenge (snd (generateChallenge s a1 w)) a2 w))"
proof -
  let ?s2 = "snd (generateChallenge (snd (generateChallenge s a1 w)) a2 w)"
  let ?n1 = "toHex (randomBytes a1 16)"
  let ?n2 = "toHex (randomBytes a2 16)"
  from generateChallenge_stores[of "snd (generateChallenge s a1 w)" a2 w]
  obtain u where u: "findByWalletAddress ?s2 w = Some u" and n: "u_nonce u = Some ?n2"
    by blast
  have "checkSignature sdk pk sg (challengeMessage ?n2) \<noteq> Inr ()"
  proof
    assume "checkSignature sdk pk sg (challengeMessage ?n2) = Inr ()"
    then obtain k where "fromPublicKey sdk pk = Some k"
      and "verify sdk k (challengeMessage ?n2) (fromHex sg) = Some True"
      unfolding checkSignature_Inr by blast
    with first_only have "challengeMessage ?n2 = challengeMessage ?n1"
      by blast
    then have "?n2 = ?n1" by (rule challengeMessage_inj)
    with differ show False by contradiction
  qed
  then have "verifySignature sdk jl cfg ?s2 a w sg pk =
           (Inl (UnauthorizedException ''Signature verification failed''), ?s2)"
    unfolding verifySignature_unfold using u n nonce_nonempty[of a2] by simp
  with u n show ?thesis by blast
qed

text \<open>The toy scheme binds a signature to its message.\<close>

lemma inj_of_char_nat: "inj (of_char :: char \<Rightarrow> nat)"
  by (rule injI) simp

lemma toySdk_binding:
  assumes "fromHex sg = map of_char m0"
  shows "\<forall>k m. fromPublicKey toySdk pk = Some k \<longrightarrow> verify toySdk k m (fromHex sg) = Some True \<longrightarrow> m = m0"
  using assms inj_map_eq_map[OF inj_of_char_nat]
  by (auto simp: toySdk_def split: if_splits)

text \<open>
  C7 on Alice's store: the signature over the first challenge makes a valid request while that
  challenge is the stored one, and is refused as a bad signature once a second challenge has
  been issued.
\<close>

theorem generateChallenge_overwrites_witness:
  "validRequest toySdk (snd (generateChallenge aliceStore (amb 100 1 ''x1'') ''GA'')) ''GA''
     (toySign (challengeMessage (toHex (randomBytes (amb 100 1 ''x1'') 16)))) ''GA'' \<and>
   fst (verifySignature toySdk (toyJwt []) noSecret
          (snd (generateChallenge (snd (generateChallenge aliceStore (amb 100 1 ''x1'') ''GA''))
                  (amb 200 2 ''x2'') ''GA''))
          (amb 300 3 ''x3'') ''GA''
          (toySign (challengeMessage (toHex (randomBytes (amb 100 1 ''x1'') 16)))) ''GA'') =
     Inl (UnauthorizedException ''Signature verification failed'')"
proof -
  let ?a1 = "amb 100 1 ''x1''"
  let ?a2 = "amb 200 2 ''x2''"
  let ?sg = "toySign (challengeMessage (toHex (randomBytes ?a1 16)))"
  have before: "validRequest toySdk (snd (generateChallenge aliceStore ?a1 ''GA'')) ''GA'' ?sg ''GA''"
    by code_simp
  have differ: "toHex (randomBytes ?a2 16) \<noteq> toHex (randomBytes ?a1 16)"
    by code_simp
  have "fromHex ?sg = map of_char (challengeMessage (toHex (randomBytes ?a1 16)))"
    by code_simp
  then have first_only: "\<forall>k m. fromPublicKey toySdk ''GA'' = Some k \<longrightarrow>
           verify toySdk k m (fromHex ?sg) = Some True \<longrightarrow>
           m = challengeMessage (toHex (randomBytes ?a1 16))"
    by (rule toySdk_binding)
  have "verifySignature toySdk (toyJwt []) noSecret
          (snd (generateChallenge (snd (generateChallenge aliceStore ?a1 ''GA'')) ?a2 ''GA''))
          (amb 300 3 ''x3'') ''GA'' ?sg ''GA'' =
        (Inl (UnauthorizedException ''Signature verification failed''),
         snd (generateChallenge (snd (generateChallenge aliceStore ?a1 ''GA'')) ?a2 ''GA''))"
    by (rule generateChallenge_overwrites[OF differ first_only, THEN conjunct2])
  then show ?thesis
    using before by (simp only: fst_conv simp_thms)
qed

end
